theory Spec2Isabelle
  imports Main
begin

section \<open>Module composition for the builder API (modules.test.ts)\<close>

text \<open>
  The file under study has two layers. The run-time layer is the body of \<open>buildApi\<close>:
  it calls \<open>init()\<close> on every module, merges the \<open>builderProps\<close> of the results with
  \<open>Object.assign\<close> and returns an object literal whose only member, \<open>createBuilder\<close>,
  throws. The static layer is a computation on types: \<open>Spread\<close>, \<open>Builder\<close> and the
  interface \<open>MiddlewareModules\<close>, which decide what the type checker lets a caller write.
  Both layers are embedded below, the first on values, the second on descriptions of
  object types.
\<close>

subsection \<open>Run-time values\<close>

text \<open>
  A property key is a string or a symbol. The two symbols of the file are created by
  \<open>Symbol('core')\<close> and \<open>Symbol('extension')\<close>; a symbol is identified here by its
  description, which is distinct for every \<open>Symbol(...)\<close> call of the file.
\<close>

datatype propkey = StrKey string | SymKey string

text \<open>The only thing the file ever throws is \<open>new Error(message)\<close>.\<close>

datatype js_error = Error string

text \<open>A plain object: its own properties, looked up by key.\<close>

type_synonym 'v obj = "propkey \<rightharpoonup> 'v"

text \<open>
  What \<open>init()\<close> returns (lines 44 to 55): \<open>injectPipeProps\<close>, a function, and
  \<open>builderProps\<close>, an object.
\<close>

record 'v initialized =
  injectPipeProps :: "unit \<Rightarrow> 'v obj"
  builderProps :: "'v obj"

text \<open>
  \<open>Module<TName>\<close> (lines 42 to 56). \<open>init\<close> is arbitrary code of the module's author:
  it reads and changes a state \<open>'s\<close>, and it returns a value or throws.
\<close>

record ('s, 'v) module =
  name :: propkey
  init :: "'s \<Rightarrow> (js_error + 'v initialized) \<times> 's"

subsection \<open>The body of buildApi\<close>

text \<open>
  Line 67, \<open>modules.map((module) => module.init())\<close>: \<open>Array.prototype.map\<close> calls the
  callback on the elements in index order; an exception leaves the loop at once, the
  remaining elements are not visited.
\<close>

fun map_init :: "('s, 'v) module list \<Rightarrow> 's \<Rightarrow> (js_error + 'v initialized list) \<times> 's" where
  "map_init [] s = (Inr [], s)"
| "map_init (m # ms) s =
     (case init m s of
        (Inl e, s') \<Rightarrow> (Inl e, s')
      | (Inr r, s') \<Rightarrow>
          (case map_init ms s' of
             (Inl e, s'') \<Rightarrow> (Inl e, s'')
           | (Inr rs, s'') \<Rightarrow> (Inr (r # rs), s'')))"

text \<open>
  \<open>Object.assign(target, source)\<close> assigns every own enumerable property of
  \<open>source\<close> to \<open>target\<close>. The target of line 71 starts as the \<open>{}\<close> of line 69,
  whose prototype is \<open>Object.prototype\<close> with its standard properties: an assignment
  to any key but the string
  \<open>__proto__\<close> creates or overwrites an own property, so a key of \<open>source\<close> gets the
  value of \<open>source\<close> and every other key of \<open>target\<close> is kept. An assignment to
  \<open>__proto__\<close> reaches the accessor \<open>Object.prototype.__proto__\<close> instead: no own
  property of that name is created, and the prototype of the target may be replaced,
  after which the effect of the later assignments depends on that object. A run is not
  followed beyond such an assignment: the result is \<open>None\<close>.
\<close>

definition Object_assign :: "'v obj \<Rightarrow> 'v obj \<Rightarrow> 'v obj option" where
  "Object_assign target source =
     (if StrKey ''__proto__'' \<in> dom source then None else Some (target ++ source))"

text \<open>Lines 70 to 72, the \<open>for ... of\<close> loop over \<open>initializedModules\<close>.\<close>

fun for_assign :: "'v obj \<Rightarrow> 'v initialized list \<Rightarrow> 'v obj option" where
  "for_assign bp [] = Some bp"
| "for_assign bp (r # rs) =
     (case Object_assign bp (builderProps r) of
        None \<Rightarrow> None
      | Some bp' \<Rightarrow> for_assign bp' rs)"

text \<open>
  Lines 67 to 72: the value of the local variable \<open>builderProps\<close> when control reaches
  the \<open>return\<close> of line 74, or the exception that ended the call before; \<open>None\<close> when
  the loop assigns to \<open>__proto__\<close>. The state is the one that the \<open>init\<close> calls of line
  67 have left.
\<close>

definition buildApi_builderProps ::
  "('s, 'v) module list \<Rightarrow> 's \<Rightarrow> (js_error + 'v obj) option \<times> 's" where
  "buildApi_builderProps modules s =
     (case map_init modules s of
        (Inl e, s') \<Rightarrow> (Some (Inl e), s')
      | (Inr initializedModules, s') \<Rightarrow>
          (map_option Inr (for_assign Map.empty initializedModules), s'))"

subsection \<open>Descriptions of object types\<close>

text \<open>
  The types that occur as field types in the file. \<open>TNameUnion\<close> is a union of module
  names, as \<open>TModules[number]['name']\<close> is.
\<close>

datatype ty =
    TObject
  | TAny
  | TNever
  | TTrue
  | TStrLit string
  | TNameUnion "propkey list"
  | TObjLit "(propkey \<times> ty) list"

text \<open>
  An object type with explicitly listed property names: the names with their types.
  The type arguments of the file are of this kind (\<open>{ ctx: { foo: 'bar' } }\<close> in lines
  161 and 191, \<open>{}\<close> in line 177). The types \<open>any\<close> and \<open>never\<close> and types with index
  signatures are not object types of this kind and are not shapes.
\<close>

type_synonym shape = "propkey \<rightharpoonup> ty"

text \<open>
  The arrow function of lines 75 to 91. It has one type parameter, no value parameter,
  no free variable, and its body is \<open>throw new Error('Not implemented')\<close>.
\<close>

definition createBuilder :: "shape \<Rightarrow> js_error + 'v obj" where
  "createBuilder TOptions = Inl (Error ''Not implemented'')"

text \<open>The object \<open>buildApi\<close> returns is an object literal whose members are functions.\<close>

type_synonym 'v api = "propkey \<rightharpoonup> (shape \<Rightarrow> js_error + 'v obj)"

text \<open>
  \<open>buildApi\<close> (lines 58 to 93): an exception of line 67 ends the call; when the loop
  completes, line 74 returns the object literal. Where the loop is not followed, the
  call is not followed either.
\<close>

definition buildApi ::
  "('s, 'v) module list \<Rightarrow> 's \<Rightarrow> (js_error + 'v api) option \<times> 's" where
  "buildApi modules s =
     (case buildApi_builderProps modules s of
        (None, s') \<Rightarrow> (None, s')
      | (Some (Inl e), s') \<Rightarrow> (Some (Inl e), s')
      | (Some (Inr bp), s') \<Rightarrow>
          (Some (Inr [StrKey ''createBuilder'' \<mapsto> createBuilder]), s'))"

text \<open>
  The parameter type of \<open>buildApi\<close>, \<open>TModules extends [Module<any>, ...Module<any>[]]\<close>
  (line 58): a tuple with a first element. It is checked where \<open>buildApi\<close> is called,
  not in its body.
\<close>

fun extends_TModules :: "('s, 'v) module list \<Rightarrow> bool" where
  "extends_TModules [] = False"
| "extends_TModules (m # ms) = True"

subsection \<open>The modules of the file\<close>

definition core :: propkey where
  "core = SymKey ''core''"

definition extension :: propkey where
  "extension = SymKey ''extension''"

text \<open>Lines 121 to 126 and 149 to 154: \<open>init\<close> throws.\<close>

definition coreModule :: "unit \<Rightarrow> ('s, 'v) module" where
  "coreModule u = \<lparr>name = core, init = (\<lambda>s. (Inl (Error ''Not implemented''), s))\<rparr>"

definition extensionModule :: "unit \<Rightarrow> ('s, 'v) module" where
  "extensionModule u = \<lparr>name = extension, init = (\<lambda>s. (Inl (Error ''Not implemented''), s))\<rparr>"

subsection \<open>The computation on types\<close>

text \<open>
  \<open>Spread<TType, TWith>\<close> (lines 3 to 9), on object types with explicitly listed
  property names: a mapped type over the keys of both arguments; a key of \<open>TWith\<close>
  takes its type from \<open>TWith\<close>, any other key from \<open>TType\<close>.
\<close>

definition Spread :: "shape \<Rightarrow> shape \<Rightarrow> shape" where
  "Spread TType TWith =
     (\<lambda>K. if K \<in> dom TType \<union> dom TWith
          then (if K \<in> dom TWith then TWith K
                else if K \<in> dom TType then TType K
                else Some TNever)
          else None)"

text \<open>
  An interface of builder members. Every member of the file has the form
  \<open>name: () => Builder<T>\<close>; it is recorded as the name with the options \<open>T\<close> of the
  builder it returns.
\<close>

type_synonym iface = "(propkey \<times> shape) list"

text \<open>An entry of \<open>MiddlewareModules\<close>: \<open>pipeProps\<close> and \<open>builderProps\<close>.\<close>

record module_def =
  pipeProps :: shape
  builderProps_type :: iface

text \<open>\<open>ModuleName = keyof MiddlewareModules<any>\<close> (line 29), after lines 114 and 142.\<close>

definition ModuleName :: ty where
  "ModuleName = TNameUnion [core, extension]"

definition MiddlewareOptions :: shape where
  "MiddlewareOptions =
     [StrKey ''$module'' \<mapsto> ModuleName, StrKey ''ctx'' \<mapsto> TAny,
      StrKey ''ctx_overrides'' \<mapsto> TAny, StrKey ''meta'' \<mapsto> TAny]"

definition CoreModuleOptions :: shape where
  "CoreModuleOptions = MiddlewareOptions(StrKey ''core'' \<mapsto> TTrue)"

definition ExtensionModuleOptions :: shape where
  "ExtensionModuleOptions = [StrKey ''ext'' \<mapsto> TTrue]"

definition CoreModuleBuilder :: "shape \<Rightarrow> iface" where
  "CoreModuleBuilder TOptions =
     [(StrKey ''coreFn'',
       Spread TOptions [StrKey ''_________ADDED_FROM_CORE_________'' \<mapsto> TStrLit ''bar''])]"

definition ExtensionModuleBuilder :: "shape \<Rightarrow> iface" where
  "ExtensionModuleBuilder TOptions = [(StrKey ''extFn'', TOptions)]"

text \<open>
  The interface \<open>MiddlewareModules<TOptions>\<close>, declared empty in line 27 and merged
  with the declarations of lines 114 to 119 and 142 to 147.
\<close>

definition MiddlewareModules :: "shape \<Rightarrow> (propkey \<rightharpoonup> module_def)" where
  "MiddlewareModules TOptions =
     [core \<mapsto> \<lparr>pipeProps = CoreModuleOptions, builderProps_type = CoreModuleBuilder TOptions\<rparr>,
      extension \<mapsto>
        \<lparr>pipeProps = ExtensionModuleOptions, builderProps_type = ExtensionModuleBuilder TOptions\<rparr>]"

text \<open>
  What \<open>Builder<TOptions>\<close> can be: \<open>any\<close>, on which every member access type-checks;
  \<open>unknown\<close>, on which none does; an interface with the listed members; or no type at
  all, because the type argument breaks the constraint of line 38 and the compiler
  reports an error.
\<close>

datatype builder_type = BError | BAny | BUnknown | BInterface iface

text \<open>
  \<open>UnionToIntersection\<close> (lines 11 to 15) turns a union of interfaces into their
  intersection, which has the members of all of them; the empty union, \<open>never\<close>, gives
  \<open>unknown\<close>.
\<close>

fun UnionToIntersection :: "iface list \<Rightarrow> builder_type" where
  "UnionToIntersection [] = BUnknown"
| "UnionToIntersection (t # ts) = BInterface (concat (t # ts))"

text \<open>
  \<open>MiddlewareModules<TOptions>[n]['builderProps']\<close> for every name \<open>n\<close> of a union;
  \<open>None\<close> when a name is not a key of the interface.
\<close>

fun builderProps_of :: "shape \<Rightarrow> propkey list \<Rightarrow> iface list option" where
  "builderProps_of TOptions [] = Some []"
| "builderProps_of TOptions (n # ns) =
     (case MiddlewareModules TOptions n of
        None \<Rightarrow> None
      | Some d \<Rightarrow>
          (case builderProps_of TOptions ns of
             None \<Rightarrow> None
           | Some ts \<Rightarrow> Some (builderProps_type d # ts)))"

text \<open>
  \<open>Builder<TOptions>\<close> (lines 38 to 40): the entries of \<open>MiddlewareModules<TOptions>\<close>
  at the names in \<open>TOptions['$module']\<close>, their \<open>builderProps\<close>, intersected. Indexing
  with \<open>any\<close> gives \<open>any\<close>, indexing with \<open>never\<close> gives the empty union. A \<open>$module\<close>
  that is missing, or is not a union of keys of \<open>MiddlewareModules\<close>, breaks the
  constraint \<open>$module: ModuleName\<close>. The other fields that the constraint asks for
  (\<open>ctx\<close>, \<open>ctx_overrides\<close>, \<open>meta\<close>) take no part in the computation and are not
  looked at here.
\<close>

definition Builder :: "shape \<Rightarrow> builder_type" where
  "Builder TOptions =
     (case TOptions (StrKey ''$module'') of
        Some TAny \<Rightarrow> BAny
      | Some TNever \<Rightarrow> BUnknown
      | Some (TNameUnion ns) \<Rightarrow>
          (case builderProps_of TOptions (remdups ns) of
             None \<Rightarrow> BError
           | Some ts \<Rightarrow> UnionToIntersection ts)
      | _ \<Rightarrow> BError)"

text \<open>
  The options in the return type of \<open>createBuilder\<close> (lines 76 to 88), for a type
  argument that is a shape: the base shape, spread with the type argument, spread with
  \<open>$module: $Name\<close>, where \<open>$Name\<close> is the union of the names of the registered
  modules (line 61).
\<close>

definition createBuilder_options :: "propkey list \<Rightarrow> shape \<Rightarrow> shape" where
  "createBuilder_options Name TOptions =
     Spread
       (Spread
          [StrKey ''ctx'' \<mapsto> TObject, StrKey ''meta'' \<mapsto> TObject,
           StrKey ''ctx_overrides'' \<mapsto> TObject]
          TOptions)
       [StrKey ''$module'' \<mapsto> TNameUnion Name]"

text \<open>The return type of \<open>createBuilder\<close> on the result of \<open>buildApi(modules)\<close>.\<close>

definition createBuilder_type :: "('s, 'v) module list \<Rightarrow> shape \<Rightarrow> builder_type" where
  "createBuilder_type modules TOptions = Builder (createBuilder_options (map name modules) TOptions)"

subsection \<open>Modules used as inputs\<close>

text \<open>
  Modules for concrete runs: one whose \<open>init\<close> returns a given \<open>builderProps\<close> record,
  one whose \<open>init\<close> throws a given message, one whose \<open>init\<close> also appends the
  module's name to a log kept in the state, one whose \<open>injectPipeProps\<close> returns given
  fields, and one whose \<open>init\<close> counts its calls and names its contribution after the
  count.
\<close>

definition returning_module :: "propkey \<Rightarrow> 'v obj \<Rightarrow> ('s, 'v) module" where
  "returning_module n bp =
     \<lparr>name = n, init = (\<lambda>s. (Inr \<lparr>injectPipeProps = (\<lambda>u. Map.empty), builderProps = bp\<rparr>, s))\<rparr>"

definition throwing_module :: "propkey \<Rightarrow> string \<Rightarrow> ('s, 'v) module" where
  "throwing_module n msg = \<lparr>name = n, init = (\<lambda>s. (Inl (Error msg), s))\<rparr>"

definition logging_module :: "propkey \<Rightarrow> 'v obj \<Rightarrow> (propkey list, 'v) module" where
  "logging_module n bp =
     \<lparr>name = n,
      init = (\<lambda>log. (Inr \<lparr>injectPipeProps = (\<lambda>u. Map.empty), builderProps = bp\<rparr>, log @ [n]))\<rparr>"



section \<open>Properties of the run-time layer\<close>

subsection \<open>The loops\<close>

lemma for_assign_Some:
  "\<forall>r\<in>set rs. StrKey ''__proto__'' \<notin> dom (builderProps r) \<Longrightarrow>
   for_assign bp rs = Some (foldl (\<lambda>acc r. acc ++ builderProps r) bp rs)"
  by (induction rs arbitrary: bp) (simp_all add: Object_assign_def)

lemma dom_foldl_add:
  "dom (foldl (\<lambda>acc r. acc ++ builderProps r) bp rs) =
     dom bp \<union> (\<Union>r\<in>set rs. dom (builderProps r))"
  by (induction rs arbitrary: bp) auto

lemma foldl_add_absent:
  "\<forall>q\<in>set rs. builderProps q k = None \<Longrightarrow>
   foldl (\<lambda>acc r. acc ++ builderProps r) bp rs k = bp k"
  by (induction rs arbitrary: bp) (simp_all add: map_add_def)

lemma foldl_add_last:
  assumes "builderProps r k = Some v" and "\<forall>q\<in>set post. builderProps q k = None"
  shows "foldl (\<lambda>acc r. acc ++ builderProps r) bp (pre @ r # post) k = Some v"
  using assms by (simp add: foldl_add_absent)

lemma map_init_length: "map_init ms s = (Inr rs, s') \<Longrightarrow> length rs = length ms"
  by (induction ms arbitrary: s rs) (auto split: prod.splits sum.splits)

lemma map_init_state:
  "map_init ms s = (Inr rs, s') \<Longrightarrow> s' = foldl (\<lambda>t m. snd (init m t)) s ms"
  by (induction ms arbitrary: s rs) (auto split: prod.splits sum.splits)

lemma map_init_nth:
  "map_init ms s = (Inr rs, s') \<Longrightarrow> i < length ms \<Longrightarrow>
   init (ms ! i) (foldl (\<lambda>t m. snd (init m t)) s (take i ms)) =
     (Inr (rs ! i), foldl (\<lambda>t m. snd (init m t)) s (take (Suc i) ms))"
proof (induction ms arbitrary: s rs i)
  case Nil
  then show ?case by simp
next
  case (Cons m ms)
  from Cons.prems(1) obtain r s1 rs' where
    m: "init m s = (Inr r, s1)" and rest: "map_init ms s1 = (Inr rs', s')" and rs: "rs = r # rs'"
    by (auto split: prod.splits sum.splits)
  show ?case
  proof (cases i)
    case 0
    then show ?thesis using m rs by simp
  next
    case (Suc j)
    then have "j < length ms" using Cons.prems(2) by simp
    from Cons.IH [OF rest this] show ?thesis using Suc m rs by simp
  qed
qed

lemma map_init_append_Inl:
  "map_init pre s = (Inl e, s1) \<Longrightarrow> map_init (pre @ ms) s = (Inl e, s1)"
  by (induction pre arbitrary: s) (auto split: prod.splits sum.splits)

lemma map_init_append_Inr:
  "map_init pre s = (Inr rs, s1) \<Longrightarrow>
   map_init (pre @ ms) s =
     (case map_init ms s1 of
        (Inl e, s2) \<Rightarrow> (Inl e, s2)
      | (Inr rs', s2) \<Rightarrow> (Inr (rs @ rs'), s2))"
  by (induction pre arbitrary: s rs) (auto split: prod.splits sum.splits)

text \<open>The state after \<open>buildApi\<close> is the state after line 67.\<close>

lemma snd_buildApi: "snd (buildApi modules s) = snd (map_init modules s)"
  by (simp add: buildApi_def buildApi_builderProps_def split: prod.splits sum.splits option.splits)



subsection \<open>The accumulated record and the returned object\<close>

text \<open>
  Claim C1, as stated, fails: for two modules that contribute the disjoint names
  \<open>coreFn\<close> and \<open>extFn\<close>, the object that \<open>buildApi\<close> produces has the single name
  \<open>createBuilder\<close>, not the union of the contributed names.
\<close>

theorem returned_object_lacks_contributed_names:
  "fst (buildApi [returning_module core [StrKey ''coreFn'' \<mapsto> (1::nat)],
                  returning_module extension [StrKey ''extFn'' \<mapsto> 2]] ())
     = Some (Inr [StrKey ''createBuilder'' \<mapsto> createBuilder]) \<and>
   dom [StrKey ''createBuilder'' \<mapsto> (createBuilder :: shape \<Rightarrow> js_error + nat obj)]
     \<noteq> dom [StrKey ''coreFn'' \<mapsto> (1::nat)] \<union> dom [StrKey ''extFn'' \<mapsto> (2::nat)]"
  by (simp add: buildApi_def buildApi_builderProps_def returning_module_def Object_assign_def)

text \<open>
  Claim C1, amended. For every module list whose \<open>init()\<close> calls return and whose
  contributions have no own key \<open>__proto__\<close>, the key set of the \<open>builderProps\<close>
  record that \<open>buildApi\<close> accumulates in lines 69 to 72 is the union of the key sets
  contributed by the modules' \<open>init()\<close> results, no name missing and none added; the
  object that \<open>buildApi\<close> returns does not hold that record: its only name is
  \<open>createBuilder\<close>.
\<close>

theorem buildApi_accumulates_union_returns_createBuilder:
  assumes "map_init modules s = (Inr rs, s')"
    and "\<forall>r\<in>set rs. StrKey ''__proto__'' \<notin> dom (builderProps r)"
  shows "\<exists>bp api. buildApi_builderProps modules s = (Some (Inr bp), s') \<and>
           dom bp = (\<Union>r\<in>set rs. dom (builderProps r)) \<and>
           buildApi modules s = (Some (Inr api), s') \<and>
           dom api = {StrKey ''createBuilder''}"
  using assms
  by (simp add: buildApi_def buildApi_builderProps_def for_assign_Some dom_foldl_add)

theorem buildApi_accumulates_union_returns_createBuilder_witness:
  "\<exists>bp api. buildApi_builderProps
              [returning_module core [StrKey ''coreFn'' \<mapsto> (1::nat)],
               returning_module extension [StrKey ''extFn'' \<mapsto> 2]] () = (Some (Inr bp), ()) \<and>
            dom bp = {StrKey ''coreFn'', StrKey ''extFn''} \<and>
            buildApi
              [returning_module core [StrKey ''coreFn'' \<mapsto> (1::nat)],
               returning_module extension [StrKey ''extFn'' \<mapsto> 2]] () = (Some (Inr api), ()) \<and>
            dom api = {StrKey ''createBuilder''}"
proof -
  have h: "map_init [returning_module core [StrKey ''coreFn'' \<mapsto> (1::nat)],
             returning_module extension [StrKey ''extFn'' \<mapsto> 2]] ()
     = (Inr [\<lparr>injectPipeProps = (\<lambda>u. Map.empty), builderProps = [StrKey ''coreFn'' \<mapsto> 1]\<rparr>,
             \<lparr>injectPipeProps = (\<lambda>u. Map.empty), builderProps = [StrKey ''extFn'' \<mapsto> 2]\<rparr>], ())"
    by (simp add: returning_module_def)
  have p: "\<forall>r\<in>set [\<lparr>injectPipeProps = (\<lambda>u. Map.empty), builderProps = [StrKey ''coreFn'' \<mapsto> (1::nat)]\<rparr>,
             \<lparr>injectPipeProps = (\<lambda>u. Map.empty), builderProps = [StrKey ''extFn'' \<mapsto> 2]\<rparr>].
           StrKey ''__proto__'' \<notin> dom (builderProps r)"
    by simp
  show ?thesis using buildApi_accumulates_union_returns_createBuilder [OF h p] by auto
qed

text \<open>
  Claim C2, as stated, fails: two modules that both declare \<open>fn\<close> are registered
  without any error, and the record holds the value of the second.
\<close>

theorem duplicate_capability_not_rejected:
  "fst (buildApi_builderProps
          [returning_module core [StrKey ''fn'' \<mapsto> (1::nat)],
           returning_module extension [StrKey ''fn'' \<mapsto> 2]] ())
     = Some (Inr [StrKey ''fn'' \<mapsto> 2])
   \<and> fst (buildApi
          [returning_module core [StrKey ''fn'' \<mapsto> (1::nat)],
           returning_module extension [StrKey ''fn'' \<mapsto> 2]] ())
     = Some (Inr [StrKey ''createBuilder'' \<mapsto> createBuilder])"
  by (simp add: buildApi_def buildApi_builderProps_def returning_module_def Object_assign_def)

text \<open>
  Claim C2, amended. A name declared by several modules is not an error: when every
  \<open>init()\<close> returns and no contribution has the own key \<open>__proto__\<close>, \<open>buildApi\<close>
  returns its object, and the accumulated record holds, for a name \<open>k\<close>, the value of
  the last module in the list that declares \<open>k\<close>.
\<close>

theorem builderProps_last_module_wins:
  assumes "map_init modules s = (Inr (pre @ r # post), s')"
    and "\<forall>q\<in>set (pre @ r # post). StrKey ''__proto__'' \<notin> dom (builderProps q)"
    and "builderProps r k = Some v"
    and "\<forall>q\<in>set post. builderProps q k = None"
  shows "\<exists>bp. buildApi_builderProps modules s = (Some (Inr bp), s') \<and> bp k = Some v \<and>
              buildApi modules s = (Some (Inr [StrKey ''createBuilder'' \<mapsto> createBuilder]), s')"
  using assms(1) for_assign_Some [OF assms(2), of Map.empty]
    foldl_add_last [OF assms(3) assms(4), of Map.empty pre]
  by (simp add: buildApi_def buildApi_builderProps_def)

theorem builderProps_last_module_wins_witness:
  "\<exists>bp. buildApi_builderProps
          [returning_module core [StrKey ''op'' \<mapsto> ''first''],
           returning_module extension [StrKey ''op'' \<mapsto> ''second'']] ()
        = (Some (Inr bp), ()) \<and> bp (StrKey ''op'') = Some ''second''"
proof -
  have h: "map_init [returning_module core [StrKey ''op'' \<mapsto> ''first''],
                     returning_module extension [StrKey ''op'' \<mapsto> ''second'']] ()
     = (Inr ([\<lparr>injectPipeProps = (\<lambda>u. Map.empty), builderProps = [StrKey ''op'' \<mapsto> ''first'']\<rparr>]
             @ \<lparr>injectPipeProps = (\<lambda>u. Map.empty), builderProps = [StrKey ''op'' \<mapsto> ''second'']\<rparr>
             # []), ())"
    by (simp add: returning_module_def)
  have p: "\<forall>q\<in>set ([\<lparr>injectPipeProps = (\<lambda>u. Map.empty), builderProps = [StrKey ''op'' \<mapsto> ''first'']\<rparr>]
             @ \<lparr>injectPipeProps = (\<lambda>u. Map.empty), builderProps = [StrKey ''op'' \<mapsto> ''second'']\<rparr>
             # []). StrKey ''__proto__'' \<notin> dom (builderProps q)"
    by simp
  show ?thesis
    using builderProps_last_module_wins [OF h p, of "StrKey ''op''" "''second''"] by auto
qed

text \<open>
  Claim C3, as stated, fails: the record is keyed by the names of the contributed
  properties. A module named \<open>core\<close> that contributes \<open>coreFn\<close> leaves a record whose
  only key is \<open>coreFn\<close>.
\<close>

theorem builderProps_keyed_by_operation_name:
  "name (returning_module core [StrKey ''coreFn'' \<mapsto> ()] :: (unit, unit) module) = core \<and>
   fst (buildApi_builderProps [returning_module core [StrKey ''coreFn'' \<mapsto> ()]] ())
     = Some (Inr [StrKey ''coreFn'' \<mapsto> ()]) \<and>
   dom [StrKey ''coreFn'' \<mapsto> ()] = {StrKey ''coreFn''} \<and> core \<noteq> StrKey ''coreFn''"
  by (simp add: buildApi_builderProps_def returning_module_def Object_assign_def core_def)

text \<open>
  Claim C3, amended. When every \<open>init()\<close> returns, \<open>buildApi\<close> has called the \<open>init\<close>
  of each module once, in list order: the \<open>i\<close>-th call runs in the state that the
  calls for the modules before it have left, its result is the \<open>i\<close>-th collected
  result, and the state after \<open>buildApi\<close> is that of all calls in turn. When moreover
  no contribution has the own key \<open>__proto__\<close>, the contributions are merged, in that
  order, into one flat record keyed by property name.
\<close>

theorem init_once_in_list_order:
  assumes "map_init modules s = (Inr rs, s')"
  shows "length rs = length modules \<and>
         s' = foldl (\<lambda>t m. snd (init m t)) s modules \<and>
         (\<forall>i<length modules.
            init (modules ! i) (foldl (\<lambda>t m. snd (init m t)) s (take i modules)) =
              (Inr (rs ! i), foldl (\<lambda>t m. snd (init m t)) s (take (Suc i) modules))) \<and>
         snd (buildApi modules s) = s' \<and>
         ((\<forall>r\<in>set rs. StrKey ''__proto__'' \<notin> dom (builderProps r)) \<longrightarrow>
            buildApi_builderProps modules s =
              (Some (Inr (foldl (\<lambda>acc r. acc ++ builderProps r) Map.empty rs)), s'))"
  using assms map_init_length [OF assms] map_init_state [OF assms] map_init_nth [OF assms]
  by (simp add: snd_buildApi buildApi_builderProps_def for_assign_Some)

theorem init_once_in_list_order_witness:
  "map_init [logging_module core [StrKey ''coreFn'' \<mapsto> (1::nat)],
             logging_module extension [StrKey ''extFn'' \<mapsto> 2]] []
     = (Inr [\<lparr>injectPipeProps = (\<lambda>u. Map.empty), builderProps = [StrKey ''coreFn'' \<mapsto> 1]\<rparr>,
             \<lparr>injectPipeProps = (\<lambda>u. Map.empty), builderProps = [StrKey ''extFn'' \<mapsto> 2]\<rparr>],
        [core, extension])
   \<and> foldl (\<lambda>t m. snd (init m t)) []
        [logging_module core [StrKey ''coreFn'' \<mapsto> (1::nat)],
         logging_module extension [StrKey ''extFn'' \<mapsto> 2]] = [core, extension]
   \<and> snd (buildApi
        [logging_module core [StrKey ''coreFn'' \<mapsto> (1::nat)],
         logging_module extension [StrKey ''extFn'' \<mapsto> 2]] []) = [core, extension]
   \<and> buildApi_builderProps
        [logging_module core [StrKey ''coreFn'' \<mapsto> (1::nat)],
         logging_module extension [StrKey ''extFn'' \<mapsto> 2]] []
      = (Some (Inr [StrKey ''coreFn'' \<mapsto> 1, StrKey ''extFn'' \<mapsto> 2]), [core, extension])"
proof -
  have h: "map_init [logging_module core [StrKey ''coreFn'' \<mapsto> (1::nat)],
             logging_module extension [StrKey ''extFn'' \<mapsto> 2]] []
     = (Inr [\<lparr>injectPipeProps = (\<lambda>u. Map.empty), builderProps = [StrKey ''coreFn'' \<mapsto> 1]\<rparr>,
             \<lparr>injectPipeProps = (\<lambda>u. Map.empty), builderProps = [StrKey ''extFn'' \<mapsto> 2]\<rparr>],
        [core, extension])"
    by (simp add: logging_module_def)
  show ?thesis using h init_once_in_list_order [OF h] by simp
qed

subsection \<open>The returned object\<close>

text \<open>
  Claim C5, as stated, fails: applied to the empty list, \<open>buildApi\<close> throws nothing and
  returns its object.
\<close>

theorem buildApi_empty_list_returns:
  "fst (buildApi ([] :: (unit, unit) module list) ()) =
     (Some (Inr [StrKey ''createBuilder'' \<mapsto> createBuilder]) :: (js_error + unit api) option)"
  by (simp add: buildApi_def buildApi_builderProps_def)

text \<open>
  Claim C5, amended. The empty list is excluded by the parameter type of \<open>buildApi\<close>,
  a tuple type with a first element, and by nothing else: the body has no check, and on
  the empty list it accumulates the empty record, leaves the state as it was and
  returns the object with \<open>createBuilder\<close>.
\<close>

theorem empty_list_rejected_by_type_only:
  "\<not> extends_TModules ([] :: ('s, 'v) module list) \<and>
   buildApi_builderProps ([] :: ('s, 'v) module list) s = (Some (Inr Map.empty), s) \<and>
   buildApi ([] :: ('s, 'v) module list) s =
     (Some (Inr [StrKey ''createBuilder'' \<mapsto> createBuilder]), s)"
  by (simp add: buildApi_def buildApi_builderProps_def)








subsection \<open>The modules of the file at run time\<close>

text \<open>
  Claim C10, as stated, fails: a call whose list contains \<open>coreModule()\<close> raises another
  error when a module before it throws first.
\<close>

theorem earlier_throw_masks_not_implemented:
  "fst (buildApi [throwing_module core ''boom'', coreModule ()] ()
        :: (js_error + unit api) option \<times> unit) = Some (Inl (Error ''boom'')) \<and>
   fst (buildApi [throwing_module core ''boom'', coreModule ()] ()
        :: (js_error + unit api) option \<times> unit) \<noteq> Some (Inl (Error ''Not implemented''))"
  by (simp add: buildApi_def buildApi_builderProps_def throwing_module_def)

text \<open>
  Claim C10, amended. A call of \<open>buildApi\<close> whose list contains \<open>coreModule()\<close> or
  \<open>extensionModule()\<close> never returns an object: it ends with an exception during
  line 67. The exception is \<open>Error('Not implemented')\<close> whenever the \<open>init\<close> of every
  module before that one returns, in particular for every list that starts with one of
  the two; otherwise it is the exception of the first module that throws.
\<close>

theorem buildApi_with_file_modules_fails:
  assumes "modules = pre @ m # post" and "m = coreModule () \<or> m = extensionModule ()"
  shows "(\<exists>e s'. buildApi modules s = (Some (Inl e), s')) \<and>
         (\<forall>rs s'. map_init pre s = (Inr rs, s') \<longrightarrow>
            buildApi modules s = (Some (Inl (Error ''Not implemented'')), s')) \<and>
         (\<forall>e s'. map_init pre s = (Inl e, s') \<longrightarrow> buildApi modules s = (Some (Inl e), s'))"
proof -
  have m: "init m t = (Inl (Error ''Not implemented''), t)" for t
    using assms(2) by (auto simp: coreModule_def extensionModule_def)
  obtain x a where pa: "map_init pre s = (x, a)" by (cases "map_init pre s")
  show ?thesis
  proof (cases x)
    case (Inl e)
    then show ?thesis using pa assms(1) map_init_append_Inl [of pre s e a "m # post"]
      by (simp add: buildApi_def buildApi_builderProps_def)
  next
    case (Inr rs)
    then show ?thesis using pa assms(1) m map_init_append_Inr [of pre s rs a "m # post"]
      by (simp add: buildApi_def buildApi_builderProps_def)
  qed
qed

theorem buildApi_with_file_modules_fails_witness:
  "buildApi [coreModule (), extensionModule ()] () =
     ((Some (Inl (Error ''Not implemented'')), ()) :: (js_error + unit api) option \<times> unit)"
  using buildApi_with_file_modules_fails
    [of "[coreModule (), extensionModule ()] :: (unit, unit) module list" "[]"
      "coreModule ()" "[extensionModule ()]" "()"]
  by simp

text \<open>
  Claim C4, as stated, fails: at run time no builder is built from the core module,
  alone or with the extension module. \<open>buildApi\<close> itself ends with
  \<open>Error('Not implemented')\<close>, the only error of the file.
\<close>

theorem core_only_no_builder_at_run_time:
  "fst (buildApi [coreModule ()] () :: (js_error + unit api) option \<times> unit)
     = Some (Inl (Error ''Not implemented'')) \<and>
   fst (buildApi [coreModule (), extensionModule ()] ()
        :: (js_error + unit api) option \<times> unit)
     = Some (Inl (Error ''Not implemented''))"
  by (simp add: buildApi_def buildApi_builderProps_def coreModule_def)


section \<open>Properties of the computation on types\<close>

text \<open>
  Claim C4, amended. The separation is static. For every type argument that is an
  object type with explicitly listed property names, the type of the builder for the
  core module alone is an interface whose only member is \<open>coreFn\<close>, so that
  \<open>builder.extFn()\<close> is a compile-time error; for the extension module alone the only
  member is \<open>extFn\<close>; for both modules the members are \<open>coreFn\<close> and \<open>extFn\<close>.
\<close>

theorem createBuilder_type_members:
  "(\<exists>T. createBuilder_type [coreModule ()] TOptions = BInterface [(StrKey ''coreFn'', T)]) \<and>
   (\<exists>T. createBuilder_type [extensionModule ()] TOptions = BInterface [(StrKey ''extFn'', T)]) \<and>
   (\<exists>T U. createBuilder_type [coreModule (), extensionModule ()] TOptions
            = BInterface [(StrKey ''coreFn'', T), (StrKey ''extFn'', U)])"
  by (simp add: createBuilder_type_def createBuilder_options_def Builder_def
      Spread_def MiddlewareModules_def CoreModuleBuilder_def
      ExtensionModuleBuilder_def coreModule_def extensionModule_def core_def extension_def)



end
